theory Spec2Isabelle
  imports Main
begin

section \<open>Data model\<close>

text \<open>
  The documents of the three collections the reservation workflow touches, after the
  mongoose schemas \<open>pharmacySchema\<close>, \<open>medicineSchema\<close> and \<open>reservationSchema\<close>.
  An ObjectId is a natural number. A field that two schemas share has the collection as
  a prefix (\<open>res_user\<close> is \<open>reservation.user\<close>, \<open>ph_user\<close> is \<open>pharmacy.user\<close>).
  The fields \<open>createdAt\<close>, \<open>updatedAt\<close> and the medicine's \<open>price\<close> (a time stamp and a
  floating-point number) are not part of the model: no handler below reads them.
\<close>

type_synonym objectId = nat

record pharmacy =
  ph_id :: objectId
  ph_name :: string
  ph_location :: string
  ph_license :: string
  ph_contact :: string
  ph_verified :: bool
  ph_user :: objectId

record medicine =
  med_id :: objectId
  med_name :: string
  med_strength :: string
  med_availability :: bool
  med_pharmacy :: objectId

record reservation =
  res_id :: objectId
  res_user :: objectId
  res_medicine :: objectId
  res_pharmacy :: objectId
  res_status :: string

text \<open>
  \<open>req.params.id\<close>: a string of the URL that no route validates and that mongoose
  casts to an ObjectId when it builds the query. \<open>ObjectId i\<close> is a string that is
  cast to \<open>i\<close>, \<open>Malformed s\<close> a string \<open>s\<close> for which the cast throws (a
  \<open>CastError\<close>).
\<close>

datatype idParam = ObjectId objectId | Malformed string

text \<open>A call that either throws, which the handlers' \<open>catch\<close> blocks see, or returns.\<close>

datatype 'a outcome = Throws | Returns 'a

text \<open>
  The database: each collection is the list of its documents in insertion order, which
  is the order \<open>findOne\<close> searches.
\<close>

record store =
  pharmacies :: "pharmacy list"
  medicines :: "medicine list"
  reservations :: "reservation list"

text \<open>\<open>req.user\<close>, as the \<open>protect\<close> middleware leaves it on the request.\<close>

record principal =
  user_id :: objectId
  role :: string

text \<open>
  What a handler sends: \<open>res.status(code).json({success: false, message})\<close> is
  \<open>Failure code message\<close>, and \<open>res.status(code).json({success: true, ...})\<close> is
  \<open>Success code payload\<close>, the payload being the \<open>data\<close> (or the \<open>message\<close>) of the body.
  The \<open>populate\<close> calls only change how references are rendered in the reply and are
  not modelled: the payload is the stored document.
\<close>

datatype 'a response = Failure nat string | Success nat 'a

fun statusCode :: "'a response \<Rightarrow> nat" where
  "statusCode (Failure c m) = c"
| "statusCode (Success c d) = c"

section \<open>Collection operations\<close>

text \<open>
  \<open>Reservation.findById(req.params.id)\<close>: throws on an id that is not an ObjectId,
  else returns the document of that id, or \<open>null\<close>.
\<close>

definition Reservation_findById ::
  "idParam \<Rightarrow> reservation list \<Rightarrow> reservation option outcome" where
  "Reservation_findById p rs =
     (case p of
        Malformed s \<Rightarrow> Throws
      | ObjectId i \<Rightarrow> Returns (find (\<lambda>r. res_id r = i) rs))"

definition Medicine_findById :: "objectId \<Rightarrow> medicine list \<Rightarrow> medicine option" where
  "Medicine_findById i ms = find (\<lambda>m. med_id m = i) ms"

text \<open>\<open>Pharmacy.findOne({ user: uid })\<close>\<close>

definition Pharmacy_findOne :: "objectId \<Rightarrow> pharmacy list \<Rightarrow> pharmacy option" where
  "Pharmacy_findOne uid ps = find (\<lambda>p. ph_user p = uid) ps"

text \<open>\<open>Reservation.findOne({ user, medicine, status })\<close>\<close>

definition Reservation_findOne ::
  "objectId \<Rightarrow> objectId \<Rightarrow> string \<Rightarrow> reservation list \<Rightarrow> reservation option" where
  "Reservation_findOne uid m s rs =
     find (\<lambda>r. res_user r = uid \<and> res_medicine r = m \<and> res_status r = s) rs"

text \<open>
  The \<open>enum\<close> of \<open>reservationSchema.status\<close>; \<open>runValidators: true\<close> makes
  \<open>findByIdAndUpdate\<close> throw on a status outside it.
\<close>

definition statusEnum :: "string list" where
  "statusEnum = [''pending'', ''confirmed'', ''cancelled'']"

text \<open>The document with the given id gets the new status; every other one is kept.\<close>

fun setStatus :: "objectId \<Rightarrow> string \<Rightarrow> reservation list \<Rightarrow> reservation list" where
  "setStatus i s [] = []"
| "setStatus i s (r # rs) =
     (if res_id r = i then r\<lparr>res_status := s\<rparr> # rs else r # setStatus i s rs)"

text \<open>
  \<open>Reservation.findByIdAndUpdate(id, { status }, { new: true, runValidators: true })\<close>:
  throws when the id is not an ObjectId or the validator rejects the status, else
  returns the updated document (\<open>null\<close> when there is none) and the collection.
\<close>

definition Reservation_findByIdAndUpdate ::
  "idParam \<Rightarrow> string \<Rightarrow> reservation list
     \<Rightarrow> (reservation option \<times> reservation list) outcome" where
  "Reservation_findByIdAndUpdate p s rs =
     (case p of
        Malformed x \<Rightarrow> Throws
      | ObjectId i \<Rightarrow>
          if s \<in> set statusEnum
          then Returns (map_option (\<lambda>r. r\<lparr>res_status := s\<rparr>) (find (\<lambda>r. res_id r = i) rs),
                        setStatus i s rs)
          else Throws)"

text \<open>The document with the given id is removed; every other one is kept.\<close>

fun deleteOne :: "objectId \<Rightarrow> reservation list \<Rightarrow> reservation list" where
  "deleteOne i [] = []"
| "deleteOne i (r # rs) = (if res_id r = i then rs else r # deleteOne i rs)"

text \<open>\<open>Reservation.findByIdAndDelete(req.params.id)\<close>\<close>

definition Reservation_findByIdAndDelete ::
  "idParam \<Rightarrow> reservation list \<Rightarrow> reservation list outcome" where
  "Reservation_findByIdAndDelete p rs =
     (case p of
        Malformed x \<Rightarrow> Throws
      | ObjectId i \<Rightarrow> Returns (deleteOne i rs))"

section \<open>Reservation handlers\<close>

text \<open>
  \<open>updateStatusValidation\<close> of the reservations router: the error array that
  \<open>validationResult(req)\<close> holds for a request whose body has the given status.
\<close>

definition updateStatusValidation :: "string \<Rightarrow> string list" where
  "updateStatusValidation status =
     (if status \<in> set [''pending'', ''confirmed'', ''cancelled''] then []
      else [''Status must be pending, confirmed, or cancelled''])"

text \<open>
  The permission block of \<open>updateReservationStatus\<close>: the reply of the first
  \<open>return res.status(...)\<close> it reaches, \<open>None\<close> when it falls through to the update.
\<close>

definition updatePermissions ::
  "principal \<Rightarrow> reservation \<Rightarrow> string \<Rightarrow> store \<Rightarrow> (nat \<times> string) option" where
  "updatePermissions u reservation status st =
     (if role u = ''consumer'' then
        (if res_user reservation \<noteq> user_id u
         then Some (403, ''Not authorized to update this reservation'')
         else if status \<noteq> ''cancelled''
         then Some (400, ''Consumers can only cancel reservations'')
         else None)
      else if role u = ''pharmacy'' then
        (case Pharmacy_findOne (user_id u) (pharmacies st) of
           None \<Rightarrow> Some (403, ''Not authorized to update this reservation'')
         | Some pharmacy \<Rightarrow>
             if res_pharmacy reservation \<noteq> ph_id pharmacy
             then Some (403, ''Not authorized to update this reservation'')
             else if status \<notin> set [''confirmed'', ''cancelled'']
             then Some (400, ''Invalid status for pharmacy update'')
             else None)
      else None)"

text \<open>
  \<open>updateReservationStatus\<close>, with \<open>errors\<close> the array of \<open>validationResult(req)\<close>,
  \<open>rid\<close> the \<open>req.params.id\<close> and \<open>status\<close> the \<open>req.body.status\<close>. The \<open>catch\<close> block
  answers a throwing query with 500.
\<close>

definition updateReservationStatus ::
  "string list \<Rightarrow> principal \<Rightarrow> idParam \<Rightarrow> string \<Rightarrow> store
     \<Rightarrow> reservation option response \<times> store" where
  "updateReservationStatus errors u rid status st =
     (if errors \<noteq> [] then (Failure 400 ''Validation failed'', st)
      else case Reservation_findById rid (reservations st) of
        Throws \<Rightarrow> (Failure 500 ''Server error'', st)
      | Returns None \<Rightarrow> (Failure 404 ''Reservation not found'', st)
      | Returns (Some reservation) \<Rightarrow>
          (case updatePermissions u reservation status st of
             Some (code, msg) \<Rightarrow> (Failure code msg, st)
           | None \<Rightarrow>
               (case Reservation_findByIdAndUpdate rid status (reservations st) of
                  Throws \<Rightarrow> (Failure 500 ''Server error'', st)
                | Returns (doc, rs) \<Rightarrow> (Success 200 doc, st\<lparr>reservations := rs\<rparr>))))"

text \<open>
  The route \<open>PUT /api/reservations/:id\<close>: the validation chain, then the handler.
\<close>

definition putReservation ::
  "principal \<Rightarrow> idParam \<Rightarrow> string \<Rightarrow> store \<Rightarrow> reservation option response \<times> store" where
  "putReservation u rid status st =
     updateReservationStatus (updateStatusValidation status) u rid status st"

text \<open>The permission block of \<open>deleteReservation\<close>.\<close>

definition deletePermissions ::
  "principal \<Rightarrow> reservation \<Rightarrow> store \<Rightarrow> (nat \<times> string) option" where
  "deletePermissions u reservation st =
     (if role u = ''consumer'' then
        (if res_user reservation \<noteq> user_id u
         then Some (403, ''Not authorized to delete this reservation'')
         else None)
      else if role u = ''pharmacy'' then
        (case Pharmacy_findOne (user_id u) (pharmacies st) of
           None \<Rightarrow> Some (403, ''Not authorized to delete this reservation'')
         | Some pharmacy \<Rightarrow>
             if res_pharmacy reservation \<noteq> ph_id pharmacy
             then Some (403, ''Not authorized to delete this reservation'')
             else None)
      else None)"

text \<open>\<open>deleteReservation\<close>, with \<open>rid\<close> the \<open>req.params.id\<close>.\<close>

definition deleteReservation ::
  "principal \<Rightarrow> idParam \<Rightarrow> store \<Rightarrow> string response \<times> store" where
  "deleteReservation u rid st =
     (case Reservation_findById rid (reservations st) of
        Throws \<Rightarrow> (Failure 500 ''Server error'', st)
      | Returns None \<Rightarrow> (Failure 404 ''Reservation not found'', st)
      | Returns (Some reservation) \<Rightarrow>
          (case deletePermissions u reservation st of
             Some (code, msg) \<Rightarrow> (Failure code msg, st)
           | None \<Rightarrow>
               (case Reservation_findByIdAndDelete rid (reservations st) of
                  Throws \<Rightarrow> (Failure 500 ''Server error'', st)
                | Returns rs \<Rightarrow>
                    (Success 200 ''Reservation deleted successfully'',
                     st\<lparr>reservations := rs\<rparr>))))"

text \<open>
  \<open>createReservation\<close>, with \<open>errors\<close> the array of \<open>validationResult(req)\<close>, \<open>oid\<close> the
  ObjectId that mongoose gives the new document and \<open>medicineId\<close> the
  \<open>req.body.medicine\<close>, which the route's \<open>isMongoId\<close> has checked when \<open>errors\<close> is
  empty. The new document has the schema's default status.
\<close>

definition createReservation ::
  "string list \<Rightarrow> objectId \<Rightarrow> principal \<Rightarrow> objectId \<Rightarrow> store
     \<Rightarrow> reservation response \<times> store" where
  "createReservation errors oid u medicineId st =
     (if errors \<noteq> [] then (Failure 400 ''Validation failed'', st)
      else case Medicine_findById medicineId (medicines st) of
        None \<Rightarrow> (Failure 404 ''Medicine not found'', st)
      | Some medicine \<Rightarrow>
          if \<not> med_availability medicine
          then (Failure 400 ''Medicine is not available'', st)
          else (case Reservation_findOne (user_id u) medicineId ''pending'' (reservations st) of
                  Some existingReservation \<Rightarrow>
                    (Failure 400 ''You already have a pending reservation for this medicine'', st)
                | None \<Rightarrow>
                    (let reservation =
                       \<lparr>res_id = oid, res_user = user_id u, res_medicine = medicineId,
                        res_pharmacy = med_pharmacy medicine, res_status = ''pending''\<rparr>
                     in (Success 201 reservation,
                         st\<lparr>reservations := reservations st @ [reservation]\<rparr>))))"

section \<open>Pharmacy creation\<close>

text \<open>\<open>req.body\<close> of \<open>POST /api/pharmacies\<close>.\<close>

record pharmacyBody =
  body_name :: string
  body_location :: string
  body_license :: string
  body_contact :: string
  body_verified :: "bool option"

datatype createError = ValidationError | DuplicateKey

text \<open>
  The schema's \<open>trim: true\<close> is the string's \<open>trim()\<close>: it strips the white space at
  both ends. A character is a code unit below 256; the white space there is tab, line
  feed, vertical tab, form feed, carriage return, space and no-break space.
\<close>

definition isWhiteSpace :: "char \<Rightarrow> bool" where
  "isWhiteSpace c = (of_char c \<in> set [9, 10, 11, 12, 13, 32, 160 :: nat])"

definition trim :: "string \<Rightarrow> string" where
  "trim s = rev (dropWhile isWhiteSpace (rev (dropWhile isWhiteSpace s)))"

text \<open>
  \<open>Pharmacy.create\<close>: the setters trim the four strings, the schema's validators
  (\<open>required\<close>, \<open>maxlength\<close>) throw a validation error, the unique index on \<open>license\<close>
  throws the error of code 11000. It returns the stored document and the collection.
\<close>

definition Pharmacy_create ::
  "pharmacy \<Rightarrow> pharmacy list \<Rightarrow> createError + pharmacy \<times> pharmacy list" where
  "Pharmacy_create given ps =
     (let doc = given\<lparr>ph_name := trim (ph_name given),
                        ph_location := trim (ph_location given),
                        ph_license := trim (ph_license given),
                        ph_contact := trim (ph_contact given)\<rparr>
      in if ph_name doc = [] \<or> 100 < length (ph_name doc) \<or> ph_location doc = []
            \<or> ph_license doc = [] \<or> ph_contact doc = []
         then Inl ValidationError
         else if find (\<lambda>p. ph_license p = ph_license doc) ps \<noteq> None
         then Inl DuplicateKey
         else Inr (doc, ps @ [doc]))"

definition createPharmacy ::
  "string list \<Rightarrow> objectId \<Rightarrow> principal \<Rightarrow> pharmacyBody \<Rightarrow> store
     \<Rightarrow> pharmacy response \<times> store" where
  "createPharmacy errors oid u body st =
     (if errors \<noteq> [] then (Failure 400 ''Validation failed'', st)
      else case Pharmacy_findOne (user_id u) (pharmacies st) of
        Some existingPharmacy \<Rightarrow> (Failure 400 ''User already has a pharmacy'', st)
      | None \<Rightarrow>
          (case Pharmacy_create
                  \<lparr>ph_id = oid, ph_name = body_name body, ph_location = body_location body,
                   ph_license = body_license body, ph_contact = body_contact body,
                   ph_verified = (case body_verified body of None \<Rightarrow> False | Some v \<Rightarrow> v),
                   ph_user = user_id u\<rparr>
                  (pharmacies st) of
                Inr (pharmacy, ps) \<Rightarrow> (Success 201 pharmacy, st\<lparr>pharmacies := ps\<rparr>)
              | Inl DuplicateKey \<Rightarrow> (Failure 400 ''License number already exists'', st)
              | Inl ValidationError \<Rightarrow> (Failure 500 ''Server error'', st)))"

section \<open>Relations of a principal to a reservation\<close>

text \<open>
  What the pharmacy branch of both permission blocks tests: \<open>Pharmacy.findOne\<close> finds a
  pharmacy of the user and the reservation's pharmacy is that one.
\<close>

definition servesOwnPharmacy :: "principal \<Rightarrow> reservation \<Rightarrow> store \<Rightarrow> bool" where
  "servesOwnPharmacy u r st =
     (case Pharmacy_findOne (user_id u) (pharmacies st) of
        None \<Rightarrow> False
      | Some pharmacy \<Rightarrow> res_pharmacy r = ph_id pharmacy)"

text \<open>
  The specification's relation servicing-pharmacy-owner, in its words: the principal is
  the owner of the pharmacy that the reservation references.
\<close>

definition isServicingPharmacyOwner :: "principal \<Rightarrow> reservation \<Rightarrow> store \<Rightarrow> bool" where
  "isServicingPharmacyOwner u r st =
     (\<exists>p\<in>set (pharmacies st). ph_id p = res_pharmacy r \<and> ph_user p = user_id u)"

text \<open>The specification's invariant: a user owns at most one pharmacy.\<close>

definition ownsAtMostOnePharmacy :: "objectId \<Rightarrow> pharmacy list \<Rightarrow> bool" where
  "ownsAtMostOnePharmacy uid ps =
     (\<forall>p\<in>set ps. \<forall>q\<in>set ps. ph_user p = uid \<and> ph_user q = uid \<longrightarrow> p = q)"

section \<open>Example database\<close>

text \<open>
  Pharmacy 100 of user 2 sells medicine 200 (available) and medicine 201 (not
  available); user 1 has the cancelled reservation 300 and the pending reservation 301
  for medicine 200.
\<close>

definition pharmacyP1 :: pharmacy where
  "pharmacyP1 = \<lparr>ph_id = 100, ph_name = ''Afya'', ph_location = ''Nairobi'',
     ph_license = ''L1'', ph_contact = ''0700'', ph_verified = True, ph_user = 2\<rparr>"

definition medicineM1 :: medicine where
  "medicineM1 = \<lparr>med_id = 200, med_name = ''Panadol'', med_strength = ''500mg'',
     med_availability = True, med_pharmacy = 100\<rparr>"

definition medicineM2 :: medicine where
  "medicineM2 = \<lparr>med_id = 201, med_name = ''Brufen'', med_strength = ''200mg'',
     med_availability = False, med_pharmacy = 100\<rparr>"

definition reservationR1 :: reservation where
  "reservationR1 = \<lparr>res_id = 300, res_user = 1, res_medicine = 200,
     res_pharmacy = 100, res_status = ''cancelled''\<rparr>"

definition reservationR2 :: reservation where
  "reservationR2 = \<lparr>res_id = 301, res_user = 1, res_medicine = 200,
     res_pharmacy = 100, res_status = ''pending''\<rparr>"

definition exampleStore :: store where
  "exampleStore = \<lparr>pharmacies = [pharmacyP1], medicines = [medicineM1, medicineM2],
     reservations = [reservationR1, reservationR2]\<rparr>"

definition consumerU1 :: principal where
  "consumerU1 = \<lparr>user_id = 1, role = ''consumer''\<rparr>"

definition consumerU3 :: principal where
  "consumerU3 = \<lparr>user_id = 3, role = ''consumer''\<rparr>"

definition pharmacistU2 :: principal where
  "pharmacistU2 = \<lparr>user_id = 2, role = ''pharmacy''\<rparr>"

definition pharmacistU4 :: principal where
  "pharmacistU4 = \<lparr>user_id = 4, role = ''pharmacy''\<rparr>"

definition adminU5 :: principal where
  "adminU5 = \<lparr>user_id = 5, role = ''admin''\<rparr>"

definition guestU6 :: principal where
  "guestU6 = \<lparr>user_id = 6, role = ''guest''\<rparr>"

section \<open>Facts about the collection operations\<close>

lemma find_Some_holds: "find P xs = Some x \<Longrightarrow> P x \<and> x \<in> set xs"
  by (induction xs) (auto split: if_splits)

lemma findById_found:
  "Reservation_findById p rs = Returns (Some r) \<Longrightarrow>
   \<exists>i. p = ObjectId i \<and> find (\<lambda>x. res_id x = i) rs = Some r"
  by (cases p) (auto simp: Reservation_findById_def)

lemma find_setStatus:
  "find (\<lambda>x. res_id x = i) rs = Some r \<Longrightarrow>
   find (\<lambda>x. res_id x = i) (setStatus i s rs) = Some (r\<lparr>res_status := s\<rparr>)"
  by (induction rs) (auto split: if_splits)

lemma findById_setStatus:
  "Reservation_findById (ObjectId i) rs = Returns (Some r) \<Longrightarrow>
   Reservation_findById (ObjectId i) (setStatus i s rs) = Returns (Some (r\<lparr>res_status := s\<rparr>))"
  by (simp add: Reservation_findById_def find_setStatus)

lemma setStatus_frame:
  "map res_id (setStatus i s rs) = map res_id rs"
  "map res_user (setStatus i s rs) = map res_user rs"
  "map res_medicine (setStatus i s rs) = map res_medicine rs"
  "map res_pharmacy (setStatus i s rs) = map res_pharmacy rs"
  "filter (\<lambda>r. res_id r \<noteq> i) (setStatus i s rs) = filter (\<lambda>r. res_id r \<noteq> i) rs"
  by (induction rs) auto

lemma findById_None_iff:
  "Reservation_findById (ObjectId i) rs = Returns None \<longleftrightarrow> i \<notin> res_id ` set rs"
  unfolding Reservation_findById_def by (auto simp: find_None_iff)

lemma findOne_pending_None_iff:
  "Reservation_findOne uid m s rs = None \<longleftrightarrow>
     (\<forall>r\<in>set rs. \<not> (res_user r = uid \<and> res_medicine r = m \<and> res_status r = s))"
  unfolding Reservation_findOne_def by (auto simp: find_None_iff)

lemma Pharmacy_findOne_None_iff:
  "Pharmacy_findOne uid ps = None \<longleftrightarrow> (\<forall>p\<in>set ps. ph_user p \<noteq> uid)"
  unfolding Pharmacy_findOne_def by (auto simp: find_None_iff)

lemma length_deleteOne:
  "find (\<lambda>x. res_id x = i) rs = Some r \<Longrightarrow> Suc (length (deleteOne i rs)) = length rs"
  by (induction rs) (auto split: if_splits)

text \<open>\<open>deleteOne\<close> removes the document that the lookup finds, and only that one.\<close>

lemma deleteOne_split:
  "find (\<lambda>x. res_id x = i) rs = Some r \<Longrightarrow>
   \<exists>xs ys. rs = xs @ r # ys \<and> (\<forall>x\<in>set xs. res_id x \<noteq> i) \<and> deleteOne i rs = xs @ ys"
proof (induction rs)
  case Nil
  then show ?case by simp
next
  case (Cons a rs)
  show ?case
  proof (cases "res_id a = i")
    case True
    with Cons.prems have "a = r" by simp
    with True have "a # rs = [] @ r # rs \<and> (\<forall>x\<in>set []. res_id x \<noteq> i)
        \<and> deleteOne i (a # rs) = [] @ rs"
      by simp
    then show ?thesis by blast
  next
    case False
    with Cons.prems have "find (\<lambda>x. res_id x = i) rs = Some r" by simp
    from Cons.IH [OF this] obtain xs ys where
      split: "rs = xs @ r # ys" "\<forall>x\<in>set xs. res_id x \<noteq> i" "deleteOne i rs = xs @ ys"
      by blast
    with False have "a # rs = (a # xs) @ r # ys \<and> (\<forall>x\<in>set (a # xs). res_id x \<noteq> i)
        \<and> deleteOne i (a # rs) = (a # xs) @ ys"
      by simp
    then show ?thesis by blast
  qed
qed

lemma deleteOne_gone:
  "distinct (map res_id rs) \<Longrightarrow> find (\<lambda>x. res_id x = i) (deleteOne i rs) = None"
proof (induction rs)
  case Nil
  then show ?case by simp
next
  case (Cons a rs)
  show ?case
  proof (cases "res_id a = i")
    case True
    with Cons.prems have "i \<notin> res_id ` set rs" by simp
    then have "find (\<lambda>x. res_id x = i) rs = None"
      by (auto simp: find_None_iff)
    with True show ?thesis by simp
  next
    case False
    with Cons show ?thesis by simp
  qed
qed

text \<open>
  When a user owns at most one pharmacy, the pharmacy that \<open>findOne\<close> returns is the one
  owned, and the code's test is the specification's relation.
\<close>

lemma servesOwnPharmacy_iff:
  assumes "ownsAtMostOnePharmacy (user_id u) (pharmacies st)"
  shows "servesOwnPharmacy u r st \<longleftrightarrow> isServicingPharmacyOwner u r st"
proof (cases "Pharmacy_findOne (user_id u) (pharmacies st)")
  case None
  then have "\<forall>p\<in>set (pharmacies st). ph_user p \<noteq> user_id u"
    by (simp add: Pharmacy_findOne_None_iff)
  with None show ?thesis
    by (auto simp: servesOwnPharmacy_def isServicingPharmacyOwner_def)
next
  case (Some p0)
  then have p0: "ph_user p0 = user_id u" "p0 \<in> set (pharmacies st)"
    using find_Some_holds [of "\<lambda>p. ph_user p = user_id u" "pharmacies st" p0]
    by (simp_all add: Pharmacy_findOne_def)
  have only: "p = p0" if "p \<in> set (pharmacies st)" "ph_user p = user_id u" for p
    using assms that p0 unfolding ownsAtMostOnePharmacy_def by blast
  have serves: "servesOwnPharmacy u r st \<longleftrightarrow> res_pharmacy r = ph_id p0"
    using Some by (simp add: servesOwnPharmacy_def)
  show ?thesis
  proof
    assume "servesOwnPharmacy u r st"
    with serves p0 show "isServicingPharmacyOwner u r st"
      unfolding isServicingPharmacyOwner_def by (intro bexI [of _ p0]) simp_all
  next
    assume "isServicingPharmacyOwner u r st"
    then obtain p where p: "p \<in> set (pharmacies st)" "ph_id p = res_pharmacy r"
        "ph_user p = user_id u"
      unfolding isServicingPharmacyOwner_def by blast
    from only [OF p(1) p(3)] p(2) serves show "servesOwnPharmacy u r st"
      by simp
  qed
qed

text \<open>What the two handlers do once the permission block lets the request through.\<close>

lemma put_unrestricted:
  assumes "updatePermissions u r status st = None"
    and "Reservation_findById (ObjectId i) (reservations st) = Returns (Some r)"
    and "status \<in> set [''pending'', ''confirmed'', ''cancelled'']"
  shows "putReservation u (ObjectId i) status st =
           (Success 200 (Some (r\<lparr>res_status := status\<rparr>)),
            st\<lparr>reservations := setStatus i status (reservations st)\<rparr>)"
  using assms
  by (simp add: putReservation_def updateReservationStatus_def updateStatusValidation_def
      Reservation_findById_def Reservation_findByIdAndUpdate_def statusEnum_def)

lemma delete_unrestricted:
  assumes "deletePermissions u r st = None"
    and "Reservation_findById (ObjectId i) (reservations st) = Returns (Some r)"
  shows "deleteReservation u (ObjectId i) st =
           (Success 200 ''Reservation deleted successfully'',
            st\<lparr>reservations := deleteOne i (reservations st)\<rparr>)"
  using assms by (simp add: deleteReservation_def Reservation_findByIdAndDelete_def)

text \<open>
  The schema's setters and validators at work: a pharmacy whose name is blank is not
  created (the validation error ends in the \<open>catch\<close> block), and the strings of a created
  pharmacy are stored trimmed.
\<close>

lemma createPharmacy_blank_name:
  "createPharmacy [] 101 pharmacistU4
     \<lparr>body_name = ''  '', body_location = ''Mombasa'', body_license = ''L2'',
      body_contact = ''0711'', body_verified = None\<rparr> exampleStore =
     (Failure 500 ''Server error'', exampleStore)"
  by (simp add: createPharmacy_def Pharmacy_create_def Pharmacy_findOne_def trim_def
      isWhiteSpace_def exampleStore_def pharmacyP1_def pharmacistU4_def Let_def)

lemma createPharmacy_trims:
  "fst (createPharmacy [] 101 pharmacistU4
     \<lparr>body_name = '' Pwani '', body_location = ''Mombasa'', body_license = ''L2'',
      body_contact = ''0711'', body_verified = None\<rparr> exampleStore) =
     Success 201 \<lparr>ph_id = 101, ph_name = ''Pwani'', ph_location = ''Mombasa'',
       ph_license = ''L2'', ph_contact = ''0711'', ph_verified = False, ph_user = 4\<rparr>"
  by (simp add: createPharmacy_def Pharmacy_create_def Pharmacy_findOne_def trim_def
      isWhiteSpace_def exampleStore_def pharmacyP1_def pharmacistU4_def Let_def)

section \<open>Properties\<close>

text \<open>
  C1, as the code has it. For a principal of role consumer and an existing
  reservation, a request for the status confirmed always fails and leaves the database
  as it was. The failure is Forbidden (403) when the principal is not the requester;
  for the requester it is the 400 reply "Consumers can only cancel reservations".
\<close>

theorem consumer_confirm_rejected:
  assumes "role u = ''consumer''"
    and "Reservation_findById p (reservations st) = Returns (Some r)"
  shows "putReservation u p ''confirmed'' st =
           (if res_user r = user_id u
            then Failure 400 ''Consumers can only cancel reservations''
            else Failure 403 ''Not authorized to update this reservation'', st)"
  using assms
  by (simp add: putReservation_def updateReservationStatus_def updateStatusValidation_def
      updatePermissions_def)

text \<open>C1 on the example database: the requester, then another consumer.\<close>

theorem consumer_confirm_rejected_witness:
  "putReservation consumerU1 (ObjectId 301) ''confirmed'' exampleStore =
     (Failure 400 ''Consumers can only cancel reservations'', exampleStore)
   \<and> putReservation consumerU3 (ObjectId 301) ''confirmed'' exampleStore =
     (Failure 403 ''Not authorized to update this reservation'', exampleStore)"
  using consumer_confirm_rejected [of consumerU1 "ObjectId 301" exampleStore reservationR2]
    consumer_confirm_rejected [of consumerU3 "ObjectId 301" exampleStore reservationR2]
  by (simp add: exampleStore_def reservationR1_def reservationR2_def consumerU1_def
      consumerU3_def Reservation_findById_def)

text \<open>
  C1, as the specification states it, fails for the requester: the reply to the
  requesting consumer is not Forbidden (403) but a 400.
\<close>

theorem consumer_confirm_forbidden_counterexample:
  "statusCode (fst (putReservation consumerU1 (ObjectId 301) ''confirmed'' exampleStore)) = 400
   \<and> statusCode (fst (putReservation consumerU1 (ObjectId 301) ''confirmed'' exampleStore))
       \<noteq> 403"
  by (simp add: exampleStore_def reservationR1_def reservationR2_def consumerU1_def
      putReservation_def updateReservationStatus_def updateStatusValidation_def
      updatePermissions_def Reservation_findById_def)

text \<open>
  C2. \<open>createReservation\<close> checks its preconditions in order and the first failure
  wins: a medicine that does not exist is NotFound (404); else a medicine that is not
  available is the conflict "Medicine is not available" (the handler replies to a
  conflict with status 400), whether or not a pending reservation exists; else an
  existing pending reservation of the same requester for the same medicine is the
  conflict "You already have a pending reservation for this medicine". Whatever the
  failure, also a validation failure, the database is unchanged: no reservation is
  created.
\<close>

theorem createReservation_first_failure_wins:
  "(Medicine_findById m (medicines st) = None \<longrightarrow>
      createReservation [] oid u m st = (Failure 404 ''Medicine not found'', st))
   \<and> (Medicine_findById m (medicines st) = Some med \<and> \<not> med_availability med \<longrightarrow>
      createReservation [] oid u m st = (Failure 400 ''Medicine is not available'', st))
   \<and> (Medicine_findById m (medicines st) = Some med \<and> med_availability med
        \<and> r \<in> set (reservations st) \<and> res_user r = user_id u \<and> res_medicine r = m
        \<and> res_status r = ''pending'' \<longrightarrow>
      createReservation [] oid u m st =
        (Failure 400 ''You already have a pending reservation for this medicine'', st))
   \<and> (fst (createReservation errors oid u m st) = Failure code msg \<longrightarrow>
      snd (createReservation errors oid u m st) = st)"
proof (intro conjI impI)
  assume "Medicine_findById m (medicines st) = None"
  then show "createReservation [] oid u m st = (Failure 404 ''Medicine not found'', st)"
    by (simp add: createReservation_def)
next
  assume "Medicine_findById m (medicines st) = Some med \<and> \<not> med_availability med"
  then show "createReservation [] oid u m st = (Failure 400 ''Medicine is not available'', st)"
    by (simp add: createReservation_def)
next
  assume a: "Medicine_findById m (medicines st) = Some med \<and> med_availability med
        \<and> r \<in> set (reservations st) \<and> res_user r = user_id u \<and> res_medicine r = m
        \<and> res_status r = ''pending''"
  then have "Reservation_findOne (user_id u) m ''pending'' (reservations st) \<noteq> None"
    unfolding findOne_pending_None_iff by blast
  with a show "createReservation [] oid u m st =
        (Failure 400 ''You already have a pending reservation for this medicine'', st)"
    by (auto simp: createReservation_def)
next
  assume "fst (createReservation errors oid u m st) = Failure code msg"
  then show "snd (createReservation errors oid u m st) = st"
    by (auto simp: createReservation_def Let_def split: if_splits option.splits)
qed

text \<open>C2 on the example database: each of the three failures, in turn.\<close>

theorem createReservation_first_failure_wins_witness:
  "createReservation [] 302 consumerU1 999 exampleStore =
     (Failure 404 ''Medicine not found'', exampleStore)
   \<and> createReservation [] 302 consumerU1 201 exampleStore =
     (Failure 400 ''Medicine is not available'', exampleStore)
   \<and> createReservation [] 302 consumerU1 200 exampleStore =
     (Failure 400 ''You already have a pending reservation for this medicine'', exampleStore)"
  using createReservation_first_failure_wins
          [of 999 exampleStore 302 consumerU1 medicineM1 reservationR2 "[]" 404 "''Medicine not found''"]
        createReservation_first_failure_wins
          [of 201 exampleStore 302 consumerU1 medicineM2 reservationR2 "[]" 400 "''Medicine is not available''"]
        createReservation_first_failure_wins
          [of 200 exampleStore 302 consumerU1 medicineM1 reservationR2 "[]" 400
              "''You already have a pending reservation for this medicine''"]
  by (simp add: exampleStore_def medicineM1_def medicineM2_def reservationR1_def
      reservationR2_def consumerU1_def Medicine_findById_def)

text \<open>
  C3. For an existing, available medicine for which the principal has no pending
  reservation, \<open>createReservation\<close> succeeds (201): the new reservation is pending, its
  user is the principal, its medicine the requested one and its pharmacy the one the
  medicine has at that moment; it is appended to the collection. The handler does not
  read the role (the route admits consumers only), so this holds for every consumer.
\<close>

theorem createReservation_pending:
  assumes "Medicine_findById m (medicines st) = Some med"
    and "med_availability med"
    and "\<forall>r\<in>set (reservations st).
           \<not> (res_user r = user_id u \<and> res_medicine r = m \<and> res_status r = ''pending'')"
  shows "createReservation [] oid u m st =
           (Success 201 \<lparr>res_id = oid, res_user = user_id u, res_medicine = m,
                         res_pharmacy = med_pharmacy med, res_status = ''pending''\<rparr>,
            st\<lparr>reservations := reservations st @
                 [\<lparr>res_id = oid, res_user = user_id u, res_medicine = m,
                   res_pharmacy = med_pharmacy med, res_status = ''pending''\<rparr>]\<rparr>)"
proof -
  have "Reservation_findOne (user_id u) m ''pending'' (reservations st) = None"
    using assms(3) by (simp add: findOne_pending_None_iff)
  with assms(1,2) show ?thesis
    by (simp add: createReservation_def Let_def)
qed

text \<open>C3 on the example database: consumer 3 reserves medicine 200 of pharmacy 100.\<close>

theorem createReservation_pending_witness:
  "createReservation [] 302 consumerU3 200 exampleStore =
     (Success 201 \<lparr>res_id = 302, res_user = 3, res_medicine = 200,
                   res_pharmacy = 100, res_status = ''pending''\<rparr>,
      exampleStore\<lparr>reservations := [reservationR1, reservationR2,
         \<lparr>res_id = 302, res_user = 3, res_medicine = 200,
          res_pharmacy = 100, res_status = ''pending''\<rparr>]\<rparr>)"
  using createReservation_pending [of 200 exampleStore medicineM1 consumerU3 302]
  by (simp add: exampleStore_def medicineM1_def medicineM2_def reservationR1_def
      reservationR2_def consumerU3_def Medicine_findById_def)

text \<open>
  C4. No guard looks at the current status: when the principal of role pharmacy owns
  the pharmacy that services a cancelled reservation, the request to confirm it
  succeeds (200) and the stored reservation is confirmed afterwards.
\<close>

theorem pharmacy_owner_confirms_cancelled:
  assumes "role u = ''pharmacy''"
    and "Pharmacy_findOne (user_id u) (pharmacies st) = Some ph"
    and "Reservation_findById p (reservations st) = Returns (Some r)"
    and "res_pharmacy r = ph_id ph"
    and "res_status r = ''cancelled''"
  shows "fst (putReservation u p ''confirmed'' st) =
           Success 200 (Some (r\<lparr>res_status := ''confirmed''\<rparr>))
         \<and> Reservation_findById p (reservations (snd (putReservation u p ''confirmed'' st))) =
           Returns (Some (r\<lparr>res_status := ''confirmed''\<rparr>))"
proof -
  from findById_found [OF assms(3)] obtain i where p: "p = ObjectId i"
    by blast
  have found: "Reservation_findById (ObjectId i) (reservations st) = Returns (Some r)"
    using assms(3) p by simp
  have perm: "updatePermissions u r ''confirmed'' st = None"
    using assms(1,2,4) by (simp add: updatePermissions_def)
  have res: "putReservation u (ObjectId i) ''confirmed'' st =
      (Success 200 (Some (r\<lparr>res_status := ''confirmed''\<rparr>)),
       st\<lparr>reservations := setStatus i ''confirmed'' (reservations st)\<rparr>)"
    using perm found by (rule put_unrestricted) simp
  show ?thesis
    using found by (simp add: p res findById_setStatus)
qed

text \<open>
  C4 on the example database: the owner of pharmacy 100 confirms the cancelled
  reservation 300.
\<close>

theorem pharmacy_owner_confirms_cancelled_witness:
  "fst (putReservation pharmacistU2 (ObjectId 300) ''confirmed'' exampleStore) =
     Success 200 (Some (reservationR1\<lparr>res_status := ''confirmed''\<rparr>))
   \<and> Reservation_findById (ObjectId 300)
       (reservations (snd (putReservation pharmacistU2 (ObjectId 300) ''confirmed''
          exampleStore))) =
     Returns (Some (reservationR1\<lparr>res_status := ''confirmed''\<rparr>))"
  using pharmacy_owner_confirms_cancelled
          [of pharmacistU2 exampleStore pharmacyP1 "ObjectId 300" reservationR1]
  by (simp add: exampleStore_def pharmacyP1_def reservationR1_def reservationR2_def
      pharmacistU2_def Pharmacy_findOne_def Reservation_findById_def)

text \<open>
  C5. For a principal of role admin and an existing reservation, whoever its requester
  and its pharmacy are, the status update succeeds (200) for each of pending,
  confirmed and cancelled and the new status is stored. The deletion succeeds (200)
  and deletes the addressed reservation and nothing else: the collection loses one
  document, which is the one of the given id that the lookup found, every other
  document stays in its place, the pharmacies and the medicines are as before, and,
  ids being unique, the reservation is not found afterwards. Neither operation is ever
  Forbidden.
\<close>

theorem admin_unrestricted:
  assumes "role u = ''admin''"
    and "Reservation_findById p (reservations st) = Returns (Some r)"
    and "status \<in> set [''pending'', ''confirmed'', ''cancelled'']"
  shows "fst (putReservation u p status st) = Success 200 (Some (r\<lparr>res_status := status\<rparr>))
         \<and> Reservation_findById p (reservations (snd (putReservation u p status st))) =
             Returns (Some (r\<lparr>res_status := status\<rparr>))
         \<and> fst (deleteReservation u p st) = Success 200 ''Reservation deleted successfully''
         \<and> Suc (length (reservations (snd (deleteReservation u p st)))) =
             length (reservations st)
         \<and> (\<exists>xs ys. reservations st = xs @ r # ys
               \<and> (\<forall>x\<in>set xs. ObjectId (res_id x) \<noteq> p)
               \<and> reservations (snd (deleteReservation u p st)) = xs @ ys)
         \<and> pharmacies (snd (deleteReservation u p st)) = pharmacies st
         \<and> medicines (snd (deleteReservation u p st)) = medicines st
         \<and> (distinct (map res_id (reservations st)) \<longrightarrow>
              Reservation_findById p (reservations (snd (deleteReservation u p st))) =
                Returns None)"
proof -
  from findById_found [OF assms(2)] obtain i where
    p: "p = ObjectId i" and find: "find (\<lambda>x. res_id x = i) (reservations st) = Some r"
    by blast
  have found: "Reservation_findById (ObjectId i) (reservations st) = Returns (Some r)"
    using assms(2) p by simp
  have "updatePermissions u r status st = None"
    using assms(1) by (simp add: updatePermissions_def)
  then have put: "putReservation u (ObjectId i) status st =
           (Success 200 (Some (r\<lparr>res_status := status\<rparr>)),
            st\<lparr>reservations := setStatus i status (reservations st)\<rparr>)"
    using found assms(3) by (rule put_unrestricted)
  have "deletePermissions u r st = None"
    using assms(1) by (simp add: deletePermissions_def)
  then have del: "deleteReservation u (ObjectId i) st =
           (Success 200 ''Reservation deleted successfully'',
            st\<lparr>reservations := deleteOne i (reservations st)\<rparr>)"
    using found by (rule delete_unrestricted)
  from deleteOne_split [OF find] obtain xs ys where
    split: "reservations st = xs @ r # ys" "\<forall>x\<in>set xs. res_id x \<noteq> i"
      "deleteOne i (reservations st) = xs @ ys"
    by blast
  have target: "\<exists>xs ys. reservations st = xs @ r # ys
      \<and> (\<forall>x\<in>set xs. ObjectId (res_id x) \<noteq> ObjectId i)
      \<and> deleteOne i (reservations st) = xs @ ys"
    using split by auto
  have gone: "distinct (map res_id (reservations st)) \<longrightarrow>
      Reservation_findById (ObjectId i) (deleteOne i (reservations st)) = Returns None"
    by (simp add: Reservation_findById_def deleteOne_gone)
  show ?thesis
    unfolding p put del
    using found find target gone
    by (simp add: findById_setStatus length_deleteOne)
qed

text \<open>
  C5 on the example database, where the admin owns nothing: the deletion of
  reservation 301 leaves exactly reservation 300.
\<close>

theorem admin_unrestricted_witness:
  "fst (putReservation adminU5 (ObjectId 301) ''confirmed'' exampleStore) =
     Success 200 (Some (reservationR2\<lparr>res_status := ''confirmed''\<rparr>))
   \<and> fst (putReservation adminU5 (ObjectId 300) ''pending'' exampleStore) =
     Success 200 (Some (reservationR1\<lparr>res_status := ''pending''\<rparr>))
   \<and> fst (deleteReservation adminU5 (ObjectId 301) exampleStore) =
     Success 200 ''Reservation deleted successfully''
   \<and> Reservation_findById (ObjectId 301)
       (reservations (snd (deleteReservation adminU5 (ObjectId 301) exampleStore))) =
     Returns None
   \<and> length (reservations (snd (deleteReservation adminU5 (ObjectId 301) exampleStore))) = 1"
  using admin_unrestricted [of adminU5 "ObjectId 301" exampleStore reservationR2 "''confirmed''"]
    admin_unrestricted [of adminU5 "ObjectId 300" exampleStore reservationR1 "''pending''"]
  by (simp add: exampleStore_def reservationR1_def reservationR2_def adminU5_def
      Reservation_findById_def)

text \<open>
  C6, as the code has it. For the roles consumer and pharmacy the permission checks
  follow the policy table and deny whatever it does not allow; for every other role
  they permit. On an existing reservation and with one of the three statuses, the
  update is permitted (200, with the updated document) exactly for the requesting
  consumer who cancels, for the principal of role pharmacy whose pharmacy is the
  servicing one and who confirms or cancels, and for a principal whose role is neither
  consumer nor pharmacy. It is Forbidden (403) exactly for a consumer who is not the
  requester and for a principal of role pharmacy whose pharmacy is not the servicing
  one; it is denied with a 400 reply exactly for the requester asking for another
  status than cancelled and for the servicing pharmacy's owner asking for pending. The
  deletion is permitted exactly for the requesting consumer, the servicing pharmacy's
  owner and a principal of another role, and Forbidden otherwise. A denied action
  leaves the database unchanged. "Whose pharmacy is the servicing one" is the code's
  test on the pharmacy that \<open>findOne\<close> returns; when the user owns at most one pharmacy
  it is the specification's servicing-pharmacy-owner relation.
\<close>

theorem permissions_follow_table_else_permit:
  assumes "Reservation_findById p (reservations st) = Returns (Some r)"
    and "status \<in> set [''pending'', ''confirmed'', ''cancelled'']"
  shows "(statusCode (fst (putReservation u p status st)) = 200 \<longleftrightarrow>
            (role u = ''consumer'' \<and> res_user r = user_id u \<and> status = ''cancelled'')
          \<or> (role u = ''pharmacy'' \<and> servesOwnPharmacy u r st
               \<and> status \<in> set [''confirmed'', ''cancelled''])
          \<or> (role u \<noteq> ''consumer'' \<and> role u \<noteq> ''pharmacy''))
       \<and> (statusCode (fst (putReservation u p status st)) = 403 \<longleftrightarrow>
            (role u = ''consumer'' \<and> res_user r \<noteq> user_id u)
          \<or> (role u = ''pharmacy'' \<and> \<not> servesOwnPharmacy u r st))
       \<and> (statusCode (fst (putReservation u p status st)) = 400 \<longleftrightarrow>
            (role u = ''consumer'' \<and> res_user r = user_id u \<and> status \<noteq> ''cancelled'')
          \<or> (role u = ''pharmacy'' \<and> servesOwnPharmacy u r st \<and> status = ''pending''))
       \<and> (statusCode (fst (putReservation u p status st)) = 200 \<longrightarrow>
            fst (putReservation u p status st) =
              Success 200 (Some (r\<lparr>res_status := status\<rparr>)))
       \<and> (statusCode (fst (putReservation u p status st)) \<noteq> 200 \<longrightarrow>
            snd (putReservation u p status st) = st)
       \<and> (statusCode (fst (deleteReservation u p st)) = 200 \<longleftrightarrow>
            (role u = ''consumer'' \<and> res_user r = user_id u)
          \<or> (role u = ''pharmacy'' \<and> servesOwnPharmacy u r st)
          \<or> (role u \<noteq> ''consumer'' \<and> role u \<noteq> ''pharmacy''))
       \<and> (statusCode (fst (deleteReservation u p st)) = 403 \<longleftrightarrow>
            (role u = ''consumer'' \<and> res_user r \<noteq> user_id u)
          \<or> (role u = ''pharmacy'' \<and> \<not> servesOwnPharmacy u r st))
       \<and> (statusCode (fst (deleteReservation u p st)) = 200 \<longrightarrow>
            fst (deleteReservation u p st) =
              Success 200 ''Reservation deleted successfully'')
       \<and> (statusCode (fst (deleteReservation u p st)) \<noteq> 200 \<longrightarrow>
            snd (deleteReservation u p st) = st)
       \<and> (ownsAtMostOnePharmacy (user_id u) (pharmacies st) \<longrightarrow>
            (servesOwnPharmacy u r st \<longleftrightarrow> isServicingPharmacyOwner u r st))"
proof -
  from findById_found [OF assms(1)] obtain i where p: "p = ObjectId i"
    by blast
  have found: "Reservation_findById (ObjectId i) (reservations st) = Returns (Some r)"
    using assms(1) p by simp
  have valid: "updateStatusValidation status = []"
    using assms(2) by (simp add: updateStatusValidation_def)
  have upd: "Reservation_findByIdAndUpdate (ObjectId i) status (reservations st) =
      Returns (Some (r\<lparr>res_status := status\<rparr>), setStatus i status (reservations st))"
    using found assms(2)
    by (simp add: Reservation_findByIdAndUpdate_def Reservation_findById_def statusEnum_def)
  have put: "putReservation u (ObjectId i) status st =
      (case updatePermissions u r status st of
         Some (code, msg) \<Rightarrow> (Failure code msg, st)
       | None \<Rightarrow> (Success 200 (Some (r\<lparr>res_status := status\<rparr>)),
                   st\<lparr>reservations := setStatus i status (reservations st)\<rparr>))"
    using found valid upd
    by (simp add: putReservation_def updateReservationStatus_def split: option.splits)
  have del: "deleteReservation u (ObjectId i) st =
      (case deletePermissions u r st of
         Some (code, msg) \<Rightarrow> (Failure code msg, st)
       | None \<Rightarrow> (Success 200 ''Reservation deleted successfully'',
                   st\<lparr>reservations := deleteOne i (reservations st)\<rparr>))"
    using found
    by (simp add: deleteReservation_def Reservation_findByIdAndDelete_def
        split: option.splits)
  have put200: "statusCode (fst (putReservation u p status st)) = 200 \<longleftrightarrow>
            (role u = ''consumer'' \<and> res_user r = user_id u \<and> status = ''cancelled'')
          \<or> (role u = ''pharmacy'' \<and> servesOwnPharmacy u r st
               \<and> status \<in> set [''confirmed'', ''cancelled''])
          \<or> (role u \<noteq> ''consumer'' \<and> role u \<noteq> ''pharmacy'')"
    unfolding p put
    by (auto simp: updatePermissions_def servesOwnPharmacy_def split: option.splits)
  have put403: "statusCode (fst (putReservation u p status st)) = 403 \<longleftrightarrow>
            (role u = ''consumer'' \<and> res_user r \<noteq> user_id u)
          \<or> (role u = ''pharmacy'' \<and> \<not> servesOwnPharmacy u r st)"
    unfolding p put
    by (auto simp: updatePermissions_def servesOwnPharmacy_def split: option.splits)
  have put400: "statusCode (fst (putReservation u p status st)) = 400 \<longleftrightarrow>
            (role u = ''consumer'' \<and> res_user r = user_id u \<and> status \<noteq> ''cancelled'')
          \<or> (role u = ''pharmacy'' \<and> servesOwnPharmacy u r st \<and> status = ''pending'')"
    unfolding p put using assms(2)
    by (auto simp: updatePermissions_def servesOwnPharmacy_def split: option.splits)
  have putOk: "statusCode (fst (putReservation u p status st)) = 200 \<longrightarrow>
            fst (putReservation u p status st) =
              Success 200 (Some (r\<lparr>res_status := status\<rparr>))"
    unfolding p put
    by (auto simp: updatePermissions_def split: option.splits)
  have putDenied: "statusCode (fst (putReservation u p status st)) \<noteq> 200 \<longrightarrow>
            snd (putReservation u p status st) = st"
    unfolding p put
    by (auto split: option.splits)
  have del200: "statusCode (fst (deleteReservation u p st)) = 200 \<longleftrightarrow>
            (role u = ''consumer'' \<and> res_user r = user_id u)
          \<or> (role u = ''pharmacy'' \<and> servesOwnPharmacy u r st)
          \<or> (role u \<noteq> ''consumer'' \<and> role u \<noteq> ''pharmacy'')"
    unfolding p del
    by (auto simp: deletePermissions_def servesOwnPharmacy_def split: option.splits)
  have del403: "statusCode (fst (deleteReservation u p st)) = 403 \<longleftrightarrow>
            (role u = ''consumer'' \<and> res_user r \<noteq> user_id u)
          \<or> (role u = ''pharmacy'' \<and> \<not> servesOwnPharmacy u r st)"
    unfolding p del
    by (auto simp: deletePermissions_def servesOwnPharmacy_def split: option.splits)
  have delOk: "statusCode (fst (deleteReservation u p st)) = 200 \<longrightarrow>
            fst (deleteReservation u p st) =
              Success 200 ''Reservation deleted successfully''"
    unfolding p del
    by (auto simp: deletePermissions_def split: option.splits)
  have delDenied: "statusCode (fst (deleteReservation u p st)) \<noteq> 200 \<longrightarrow>
            snd (deleteReservation u p st) = st"
    unfolding p del
    by (auto split: option.splits)
  have owner: "ownsAtMostOnePharmacy (user_id u) (pharmacies st) \<longrightarrow>
            (servesOwnPharmacy u r st \<longleftrightarrow> isServicingPharmacyOwner u r st)"
    using servesOwnPharmacy_iff by blast
  show ?thesis
    by (intro conjI put200 put403 put400 putOk putDenied del200 del403 delOk delDenied owner)
qed

text \<open>
  C6 on the example database: a foreign consumer and a pharmacy-role user without a
  pharmacy are Forbidden, the requester who asks for pending and the servicing
  pharmacy's owner who asks for pending are denied with 400, the owner who confirms
  and the role guest are let through.
\<close>

theorem permissions_follow_table_else_permit_witness:
  "statusCode (fst (putReservation consumerU3 (ObjectId 301) ''cancelled'' exampleStore)) = 403
   \<and> statusCode (fst (deleteReservation pharmacistU4 (ObjectId 301) exampleStore)) = 403
   \<and> statusCode (fst (putReservation consumerU1 (ObjectId 301) ''pending'' exampleStore)) = 400
   \<and> statusCode (fst (putReservation pharmacistU2 (ObjectId 301) ''pending'' exampleStore)) = 400
   \<and> statusCode (fst (putReservation pharmacistU2 (ObjectId 301) ''confirmed'' exampleStore))
       = 200
   \<and> fst (putReservation guestU6 (ObjectId 301) ''cancelled'' exampleStore) =
       Success 200 (Some (reservationR2\<lparr>res_status := ''cancelled''\<rparr>))
   \<and> fst (deleteReservation guestU6 (ObjectId 301) exampleStore) =
       Success 200 ''Reservation deleted successfully''
   \<and> isServicingPharmacyOwner pharmacistU2 reservationR2 exampleStore"
proof -
  have found: "Reservation_findById (ObjectId 301) (reservations exampleStore) =
      Returns (Some reservationR2)"
    by (simp add: exampleStore_def reservationR1_def reservationR2_def
        Reservation_findById_def)
  have serves: "servesOwnPharmacy pharmacistU2 reservationR2 exampleStore"
    by (simp add: servesOwnPharmacy_def Pharmacy_findOne_def exampleStore_def
        pharmacyP1_def pharmacistU2_def reservationR2_def)
  have no_pharmacy: "\<not> servesOwnPharmacy pharmacistU4 reservationR2 exampleStore"
    by (simp add: servesOwnPharmacy_def Pharmacy_findOne_def exampleStore_def
        pharmacyP1_def pharmacistU4_def)
  have one: "ownsAtMostOnePharmacy (user_id pharmacistU2) (pharmacies exampleStore)"
    by (simp add: ownsAtMostOnePharmacy_def exampleStore_def)
  have c1: "statusCode (fst (putReservation consumerU3 (ObjectId 301) ''cancelled''
      exampleStore)) = 403"
    using permissions_follow_table_else_permit
            [OF found, of "''cancelled''" consumerU3]
    by (simp add: consumerU3_def reservationR2_def)
  have c2: "statusCode (fst (deleteReservation pharmacistU4 (ObjectId 301) exampleStore)) = 403"
    using permissions_follow_table_else_permit
            [OF found, of "''cancelled''" pharmacistU4] no_pharmacy
    by (simp add: pharmacistU4_def)
  have c3: "statusCode (fst (putReservation consumerU1 (ObjectId 301) ''pending''
      exampleStore)) = 400"
    using permissions_follow_table_else_permit
            [OF found, of "''pending''" consumerU1]
    by (simp add: consumerU1_def reservationR2_def)
  have c4: "statusCode (fst (putReservation pharmacistU2 (ObjectId 301) ''pending''
      exampleStore)) = 400"
    using permissions_follow_table_else_permit
            [OF found, of "''pending''" pharmacistU2] serves
    by (simp add: pharmacistU2_def)
  have c5: "statusCode (fst (putReservation pharmacistU2 (ObjectId 301) ''confirmed''
      exampleStore)) = 200"
    using permissions_follow_table_else_permit
            [OF found, of "''confirmed''" pharmacistU2] serves
    by (simp add: pharmacistU2_def)
  have c6: "fst (putReservation guestU6 (ObjectId 301) ''cancelled'' exampleStore) =
      Success 200 (Some (reservationR2\<lparr>res_status := ''cancelled''\<rparr>))
    \<and> fst (deleteReservation guestU6 (ObjectId 301) exampleStore) =
      Success 200 ''Reservation deleted successfully''"
    using permissions_follow_table_else_permit
            [OF found, of "''cancelled''" guestU6]
    by (simp add: guestU6_def)
  have c7: "isServicingPharmacyOwner pharmacistU2 reservationR2 exampleStore"
    using permissions_follow_table_else_permit
            [OF found, of "''confirmed''" pharmacistU2] serves one
    by simp
  from c1 c2 c3 c4 c5 c6 c7 show ?thesis by simp
qed

text \<open>
  C6, as the specification states it, fails twice. A principal whose role is none of
  consumer, pharmacy and admin is not denied: its update and its deletion of a
  reservation it has no relation to succeed. And a combination that the table does not
  allow for a known role, the servicing pharmacy's owner asking for pending, is denied
  with a 400 reply, not with Forbidden (403).
\<close>

theorem deny_by_default_counterexample:
  "fst (putReservation guestU6 (ObjectId 301) ''confirmed'' exampleStore) =
     Success 200 (Some (reservationR2\<lparr>res_status := ''confirmed''\<rparr>))
   \<and> fst (deleteReservation guestU6 (ObjectId 301) exampleStore) =
     Success 200 ''Reservation deleted successfully''
   \<and> fst (putReservation pharmacistU2 (ObjectId 300) ''pending'' exampleStore) =
     Failure 400 ''Invalid status for pharmacy update''"
  by (simp add: exampleStore_def pharmacyP1_def reservationR1_def reservationR2_def
      guestU6_def pharmacistU2_def
      putReservation_def updateReservationStatus_def updateStatusValidation_def
      updatePermissions_def deleteReservation_def deletePermissions_def
      Pharmacy_findOne_def Reservation_findById_def Reservation_findByIdAndUpdate_def
      Reservation_findByIdAndDelete_def statusEnum_def)

text \<open>
  C7. When the user already owns a pharmacy, \<open>createPharmacy\<close> fails with status 400
  and leaves the database unchanged: no pharmacy is created. For a request that passed
  validation the failure is the conflict "User already has a pharmacy".
\<close>

theorem second_pharmacy_rejected:
  assumes "p \<in> set (pharmacies st)" and "ph_user p = user_id u"
  shows "createPharmacy errors oid u body st =
           (Failure 400 (if errors = [] then ''User already has a pharmacy''
                         else ''Validation failed''), st)"
proof -
  have "Pharmacy_findOne (user_id u) (pharmacies st) \<noteq> None"
    using assms unfolding Pharmacy_findOne_None_iff by blast
  then show ?thesis
    by (auto simp: createPharmacy_def)
qed

text \<open>C7 on the example database: user 2 owns pharmacy 100 and asks for a second one.\<close>

theorem second_pharmacy_rejected_witness:
  "createPharmacy [] 101 pharmacistU2
     \<lparr>body_name = ''Second'', body_location = ''Mombasa'', body_license = ''L2'',
      body_contact = ''0711'', body_verified = None\<rparr> exampleStore =
     (Failure 400 ''User already has a pharmacy'', exampleStore)"
  using second_pharmacy_rejected [of pharmacyP1 exampleStore pharmacistU2 "[]" 101
     "\<lparr>body_name = ''Second'', body_location = ''Mombasa'', body_license = ''L2'',
       body_contact = ''0711'', body_verified = None\<rparr>"]
  by (simp add: exampleStore_def pharmacyP1_def pharmacistU2_def)

text \<open>
  C8, as the code has it. For every principal and every id that is an ObjectId and that
  no reservation has, the deletion is NotFound (404), and so is the status update for
  each of the three statuses; the lookup precedes the permission checks, so the update
  of a missing reservation is never Forbidden (403), whatever the status sent. For an
  id that is not an ObjectId the lookup throws: the deletion, and the status update for
  each of the three statuses, are answered with 500 "Server error", which is not
  Forbidden either. In every case the database is unchanged.
\<close>

theorem missing_reservation_not_found:
  assumes "rid \<notin> res_id ` set (reservations st)"
  shows "deleteReservation u (ObjectId rid) st = (Failure 404 ''Reservation not found'', st)
       \<and> (status \<in> set [''pending'', ''confirmed'', ''cancelled''] \<longrightarrow>
            putReservation u (ObjectId rid) status st =
              (Failure 404 ''Reservation not found'', st))
       \<and> statusCode (fst (putReservation u (ObjectId rid) status st)) \<noteq> 403
       \<and> snd (putReservation u (ObjectId rid) status st) = st
       \<and> deleteReservation u (Malformed s) st = (Failure 500 ''Server error'', st)
       \<and> (status \<in> set [''pending'', ''confirmed'', ''cancelled''] \<longrightarrow>
            putReservation u (Malformed s) status st = (Failure 500 ''Server error'', st))
       \<and> statusCode (fst (putReservation u (Malformed s) status st)) \<noteq> 403
       \<and> snd (putReservation u (Malformed s) status st) = st"
proof -
  have none: "Reservation_findById (ObjectId rid) (reservations st) = Returns None"
    using assms by (simp add: findById_None_iff)
  have throws: "Reservation_findById (Malformed s) (reservations st) = Throws"
    by (simp add: Reservation_findById_def)
  show ?thesis
    by (simp add: none throws deleteReservation_def putReservation_def
        updateReservationStatus_def updateStatusValidation_def)
qed

text \<open>
  C8 on the example database, for principals that own nothing: an ObjectId that no
  reservation has, and the id \<open>abc\<close>.
\<close>

theorem missing_reservation_not_found_witness:
  "deleteReservation consumerU3 (ObjectId 999) exampleStore =
     (Failure 404 ''Reservation not found'', exampleStore)
   \<and> putReservation pharmacistU4 (ObjectId 999) ''confirmed'' exampleStore =
     (Failure 404 ''Reservation not found'', exampleStore)
   \<and> putReservation pharmacistU4 (Malformed ''abc'') ''confirmed'' exampleStore =
     (Failure 500 ''Server error'', exampleStore)"
  using missing_reservation_not_found
          [of 999 exampleStore consumerU3 "''confirmed''" "''abc''"]
    missing_reservation_not_found
          [of 999 exampleStore pharmacistU4 "''confirmed''" "''abc''"]
  by (simp add: exampleStore_def reservationR1_def reservationR2_def)

text \<open>
  C8, as the specification states it, fails for an id that is not an ObjectId: such an
  id refers to no reservation, and the deletion and the status update are answered
  with 500, not with NotFound (404).
\<close>

theorem malformed_id_not_found_counterexample:
  "deleteReservation consumerU1 (Malformed ''abc'') exampleStore =
     (Failure 500 ''Server error'', exampleStore)
   \<and> statusCode (fst (deleteReservation consumerU1 (Malformed ''abc'') exampleStore)) \<noteq> 404
   \<and> putReservation consumerU1 (Malformed ''abc'') ''cancelled'' exampleStore =
     (Failure 500 ''Server error'', exampleStore)
   \<and> statusCode (fst (putReservation consumerU1 (Malformed ''abc'') ''cancelled''
        exampleStore)) \<noteq> 404"
  by (simp add: deleteReservation_def putReservation_def updateReservationStatus_def
      updateStatusValidation_def Reservation_findById_def)

text \<open>
  C9. A successful status update changes the status of the addressed reservation and
  nothing else: the pharmacies and the medicines (and so every availability flag) are as
  before; the reservations keep their ids, users, medicines and pharmacies, position by
  position; the reservations with another id are untouched; and the document in the
  reply is the one found, with the new status.
\<close>

theorem status_update_frame:
  assumes "putReservation u p status st = (Success code doc, st')"
  shows "pharmacies st' = pharmacies st \<and> medicines st' = medicines st
       \<and> map res_id (reservations st') = map res_id (reservations st)
       \<and> map res_user (reservations st') = map res_user (reservations st)
       \<and> map res_medicine (reservations st') = map res_medicine (reservations st)
       \<and> map res_pharmacy (reservations st') = map res_pharmacy (reservations st)
       \<and> filter (\<lambda>r. ObjectId (res_id r) \<noteq> p) (reservations st') =
           filter (\<lambda>r. ObjectId (res_id r) \<noteq> p) (reservations st)
       \<and> (\<exists>r. Reservation_findById p (reservations st) = Returns (Some r)
              \<and> doc = Some (r\<lparr>res_status := status\<rparr>))"
proof -
  from assms obtain i r where
    p: "p = ObjectId i"
    and found: "Reservation_findById (ObjectId i) (reservations st) = Returns (Some r)"
    and doc: "doc = Some (r\<lparr>res_status := status\<rparr>)"
    and st': "st' = st\<lparr>reservations := setStatus i status (reservations st)\<rparr>"
    by (cases p)
      (auto simp: putReservation_def updateReservationStatus_def Reservation_findById_def
        Reservation_findByIdAndUpdate_def
        split: if_splits option.splits outcome.splits)
  show ?thesis
    using found doc by (simp add: p st' setStatus_frame)
qed

text \<open>C9 on the example database: confirming reservation 301.\<close>

theorem status_update_frame_witness:
  "medicines (snd (putReservation pharmacistU2 (ObjectId 301) ''confirmed'' exampleStore)) =
     [medicineM1, medicineM2]
   \<and> pharmacies (snd (putReservation pharmacistU2 (ObjectId 301) ''confirmed'' exampleStore)) =
     [pharmacyP1]
   \<and> map res_pharmacy
       (reservations (snd (putReservation pharmacistU2 (ObjectId 301) ''confirmed''
          exampleStore))) =
     [100, 100]
   \<and> map res_status
       (reservations (snd (putReservation pharmacistU2 (ObjectId 301) ''confirmed''
          exampleStore))) =
     [''cancelled'', ''confirmed'']"
proof -
  have run: "putReservation pharmacistU2 (ObjectId 301) ''confirmed'' exampleStore =
      (Success 200 (Some (reservationR2\<lparr>res_status := ''confirmed''\<rparr>)),
       exampleStore\<lparr>reservations :=
         [reservationR1, reservationR2\<lparr>res_status := ''confirmed''\<rparr>]\<rparr>)"
    by (simp add: exampleStore_def pharmacyP1_def reservationR1_def reservationR2_def
        pharmacistU2_def putReservation_def updateReservationStatus_def
        updateStatusValidation_def updatePermissions_def Pharmacy_findOne_def
        Reservation_findById_def Reservation_findByIdAndUpdate_def statusEnum_def)
  show ?thesis
    using status_update_frame [OF run] unfolding run
    by (simp add: exampleStore_def reservationR1_def reservationR2_def)
qed

text \<open>
  C10. For a principal of role pharmacy that owns no pharmacy, the status update (with
  one of the three statuses) and the deletion of an existing reservation are Forbidden
  (403), not NotFound, and the database is unchanged.
\<close>

theorem pharmacy_role_without_pharmacy_forbidden:
  assumes "role u = ''pharmacy''"
    and "\<forall>ph\<in>set (pharmacies st). ph_user ph \<noteq> user_id u"
    and "Reservation_findById p (reservations st) = Returns (Some r)"
    and "status \<in> set [''pending'', ''confirmed'', ''cancelled'']"
  shows "putReservation u p status st =
           (Failure 403 ''Not authorized to update this reservation'', st)
       \<and> deleteReservation u p st =
           (Failure 403 ''Not authorized to delete this reservation'', st)"
proof -
  have "Pharmacy_findOne (user_id u) (pharmacies st) = None"
    using assms(2) by (simp add: Pharmacy_findOne_None_iff)
  then show ?thesis
    using assms(1,3,4)
    by (simp add: putReservation_def updateReservationStatus_def updateStatusValidation_def
        updatePermissions_def deleteReservation_def deletePermissions_def)
qed

text \<open>C10 on the example database: user 4 has the role pharmacy and no pharmacy.\<close>

theorem pharmacy_role_without_pharmacy_forbidden_witness:
  "putReservation pharmacistU4 (ObjectId 301) ''confirmed'' exampleStore =
     (Failure 403 ''Not authorized to update this reservation'', exampleStore)
   \<and> deleteReservation pharmacistU4 (ObjectId 301) exampleStore =
     (Failure 403 ''Not authorized to delete this reservation'', exampleStore)"
  using pharmacy_role_without_pharmacy_forbidden
          [of pharmacistU4 exampleStore "ObjectId 301" reservationR2 "''confirmed''"]
  by (simp add: exampleStore_def pharmacyP1_def reservationR1_def reservationR2_def
      pharmacistU4_def Reservation_findById_def)

end
